theory Spec2Isabelle
  imports Main
begin

section \<open>Objects and the object store\<close>

text \<open>
  The town controller of \<^verbatim>\<open>src/lib/CoveyTownController.ts\<close> keeps arrays of references to
  \<^verbatim>\<open>Player\<close>, \<^verbatim>\<open>PlayerSession\<close> and \<^verbatim>\<open>CoveyTownListener\<close> objects. The objects are shared
  (a session points to its player, a socket handler closes over a listener and a session)
  and two of them are mutated in place (\<^verbatim>\<open>player.updateLocation\<close>,
  \<^verbatim>\<open>theSession.videoToken = ...\<close>), so objects live in a store indexed by references and
  the arrays hold references. Listeners are compared by identity (\<^verbatim>\<open>v !== listener\<close>), which
  is equality of references.
\<close>

type_synonym objref = nat
type_synonym socket = nat

text \<open>
  Modelled from the spec: the class \<^verbatim>\<open>Player\<close> (\<^verbatim>\<open>types/Player.ts\<close>) is not among the
  sources. The spec gives it an identifier, a display name and a current location; the
  controller reads \<^verbatim>\<open>id\<close> and calls \<^verbatim>\<open>updateLocation\<close>, which overwrites the location
  unconditionally. The location type \<^verbatim>\<open>UserLocation\<close> is never inspected by the
  controller and is a type parameter.
\<close>

record 'loc Player =
  id' :: string
  userName :: string
  location :: 'loc

definition updateLocation :: "'loc Player \<Rightarrow> 'loc \<Rightarrow> 'loc Player" where
  "updateLocation p loc = p\<lparr>location := loc\<rparr>"

text \<open>
  Modelled from the spec: the class \<^verbatim>\<open>PlayerSession\<close> (\<^verbatim>\<open>types/PlayerSession.ts\<close>) is not
  among the sources. A session binds one player to one session token and a video token
  that is populated after creation. The token is generated at random by the constructor;
  here the caller supplies it.
\<close>

record PlayerSession =
  player :: objref
  sessionToken :: string
  videoToken :: "string option"

definition new_PlayerSession :: "objref \<Rightarrow> string \<Rightarrow> PlayerSession" where
  "new_PlayerSession p tok = \<lparr>player = p, sessionToken = tok, videoToken = None\<rparr>"

text \<open>The four methods of \<^verbatim>\<open>CoveyTownListener\<close>, with the player reference they are passed.\<close>

datatype notification =
    PlayerJoined objref
  | PlayerMoved objref
  | PlayerDisconnected objref
  | TownDestroyed

text \<open>
  The two closures that \<^verbatim>\<open>connect\<close> installs on a socket, as data: the disconnect
  handler closes over the listener and the session, the movement handler over the session.
\<close>

datatype handler =
    DisconnectHandler objref objref
  | PlayerMovementHandler objref

text \<open>
  What the controller does to the outside world, in the order it does it: a call of a
  listener's method, the socket calls of the adapter and of \<^verbatim>\<open>connect\<close>, and the request
  to the video client. \<^verbatim>\<open>socket.emit\<close> serialises the player it is given, so the event
  carries the player's value at that moment.
\<close>

datatype 'loc effect =
    ListenerCall objref notification
  | SocketEmit socket string "'loc Player option"
  | SocketDisconnect socket bool
  | SocketOn socket string handler
  | GetTokenForTown string string

datatype error = VideoTokenFault

section \<open>The controller's state\<close>

text \<open>
  The private fields of \<^verbatim>\<open>CoveyTownController\<close> (without their leading underscore),
  together with the object store: \<open>player_objs\<close> and \<open>session_objs\<close> give the current value
  of each object, \<open>adapter_socket l\<close> is the socket a listener object created by
  \<^verbatim>\<open>townSocketAdapter\<close> closes over (\<open>None\<close> for a listener of another kind), and
  \<open>next_ref\<close> is the reference the next \<^verbatim>\<open>new\<close> returns.
\<close>

record 'loc CoveyTownController =
  player_objs :: "objref \<Rightarrow> 'loc Player"
  session_objs :: "objref \<Rightarrow> PlayerSession"
  adapter_socket :: "objref \<Rightarrow> socket option"
  next_ref :: objref
  players :: "objref list"
  sessions :: "objref list"
  listeners :: "objref list"
  coveyTownID :: string
  friendlyName :: string
  townUpdatePassword :: string
  isPubliclyListed :: bool

definition occupancy :: "'loc CoveyTownController \<Rightarrow> nat" where
  "occupancy t = length (listeners t)"

section \<open>update\<close>

text \<open>
  \<^verbatim>\<open>passwordMatches\<close> is imported from \<^verbatim>\<open>CoveyTownsStore\<close>, which is not among the sources;
  it is a parameter of \<open>update\<close>. The body follows the source: the local \<^verbatim>\<open>result\<close> is
  threaded through the two inner conditionals.
\<close>

definition update ::
  "(string \<Rightarrow> string \<Rightarrow> bool) \<Rightarrow> 'loc CoveyTownController \<Rightarrow> string \<Rightarrow> string option \<Rightarrow>
     bool option \<Rightarrow> 'loc CoveyTownController \<times> bool" where
  "update passwordMatches t coveyTownPassword newName makePublic =
     (if passwordMatches coveyTownPassword (townUpdatePassword t) then
        (let (t1, result) =
               (case newName of
                  None \<Rightarrow> (t, True)
                | Some n \<Rightarrow>
                    if length n = 0 then (t, False) else (t\<lparr>friendlyName := n\<rparr>, True))
         in (case makePublic of
               None \<Rightarrow> (t1, result)
             | Some b \<Rightarrow> if result then (t1\<lparr>isPubliclyListed := b\<rparr>, result) else (t1, result)))
      else (t, False))"

section \<open>Listeners and the socket adapter\<close>

text \<open>
  \<^verbatim>\<open>townSocketAdapter(socket)\<close> returns an object with four methods; this is what each
  method does when called. The store is passed so that \<^verbatim>\<open>socket.emit\<close> can serialise the
  player.
\<close>

fun townSocketAdapter :: "socket \<Rightarrow> (objref \<Rightarrow> 'loc Player) \<Rightarrow> notification \<Rightarrow> 'loc effect list" where
  "townSocketAdapter s h (PlayerMoved p) = [SocketEmit s ''playerMoved'' (Some (h p))]"
| "townSocketAdapter s h (PlayerDisconnected p) = [SocketEmit s ''playerDisconnect'' (Some (h p))]"
| "townSocketAdapter s h (PlayerJoined p) = [SocketEmit s ''newPlayer'' (Some (h p))]"
| "townSocketAdapter s h TownDestroyed = [SocketEmit s ''townClosing'' None, SocketDisconnect s True]"

text \<open>
  One call \<^verbatim>\<open>listener.onX(...)\<close>: the call itself, followed by what the listener's method
  does when the listener is a socket adapter. A listener of another kind (a test's mock)
  does nothing that the controller can see.
\<close>

definition call_listener :: "'loc CoveyTownController \<Rightarrow> notification \<Rightarrow> objref \<Rightarrow> 'loc effect list" where
  "call_listener t n l =
     ListenerCall l n #
       (case adapter_socket t l of
          None \<Rightarrow> []
        | Some s \<Rightarrow> townSocketAdapter s (player_objs t) n)"

text \<open>\<^verbatim>\<open>this._listeners.forEach(listener => listener.onX(...))\<close>: every entry of the array, in order.\<close>

definition forEach_listener :: "'loc CoveyTownController \<Rightarrow> notification \<Rightarrow> 'loc effect list" where
  "forEach_listener t n = concat (map (call_listener t n) (listeners t))"

definition addTownListener :: "'loc CoveyTownController \<Rightarrow> objref \<Rightarrow> 'loc CoveyTownController" where
  "addTownListener t listener = t\<lparr>listeners := listeners t @ [listener]\<rparr>"

definition removeTownListener :: "'loc CoveyTownController \<Rightarrow> objref \<Rightarrow> 'loc CoveyTownController" where
  "removeTownListener t listener = t\<lparr>listeners := filter (\<lambda>v. v \<noteq> listener) (listeners t)\<rparr>"

definition disconnectAllPlayers :: "'loc CoveyTownController \<Rightarrow> 'loc CoveyTownController \<times> 'loc effect list" where
  "disconnectAllPlayers t = (t, forEach_listener t TownDestroyed)"

section \<open>addPlayer\<close>

text \<open>
  \<^verbatim>\<open>addPlayer\<close> is an \<^verbatim>\<open>async\<close> function with one \<^verbatim>\<open>await\<close>. Everything up to the
  \<^verbatim>\<open>await\<close>, the call of \<^verbatim>\<open>getTokenForTown\<close> included, runs at once (\<open>addPlayer_start\<close>);
  the function is then suspended and other handlers of the controller may run; when the
  promise settles, the rest runs on the state of that moment (\<open>addPlayer_resume\<close>). A
  rejected promise makes the \<^verbatim>\<open>await\<close> throw: nothing after it runs and the call fails.
\<close>

definition addPlayer_start ::
  "'loc CoveyTownController \<Rightarrow> objref \<Rightarrow> string \<Rightarrow> 'loc CoveyTownController \<times> 'loc effect list \<times> objref" where
  "addPlayer_start t newPlayer token =
     (let theSession = next_ref t;
          t1 = t\<lparr>session_objs := (session_objs t)(theSession := new_PlayerSession newPlayer token),
                 next_ref := Suc theSession\<rparr>;
          t2 = t1\<lparr>sessions := sessions t1 @ [theSession]\<rparr>;
          t3 = t2\<lparr>players := players t2 @ [newPlayer]\<rparr>
      in (t3, [GetTokenForTown (coveyTownID t3) (id' (player_objs t3 newPlayer))], theSession))"

definition addPlayer_resume ::
  "'loc CoveyTownController \<Rightarrow> objref \<Rightarrow> objref \<Rightarrow> error + string \<Rightarrow>
     'loc CoveyTownController \<times> 'loc effect list \<times> (error + objref)" where
  "addPlayer_resume t theSession newPlayer fetched =
     (case fetched of
        Inl e \<Rightarrow> (t, [], Inl e)
      | Inr tok \<Rightarrow>
          (let t1 = t\<lparr>session_objs :=
                      (session_objs t)(theSession := (session_objs t theSession)\<lparr>videoToken := Some tok\<rparr>)\<rparr>
           in (t1, forEach_listener t1 (PlayerJoined newPlayer), Inr theSession)))"

text \<open>The whole call when nothing else runs while it is suspended.\<close>

definition addPlayer ::
  "'loc CoveyTownController \<Rightarrow> objref \<Rightarrow> string \<Rightarrow> error + string \<Rightarrow>
     'loc CoveyTownController \<times> 'loc effect list \<times> (error + objref)" where
  "addPlayer t newPlayer token fetched =
     (let (t1, e1, theSession) = addPlayer_start t newPlayer token;
          (t2, e2, res) = addPlayer_resume t1 theSession newPlayer fetched
      in (t2, e1 @ e2, res))"

section \<open>Movement, connect and disconnect\<close>

definition onPlayerMovement ::
  "'loc CoveyTownController \<Rightarrow> objref \<Rightarrow> 'loc \<Rightarrow> 'loc CoveyTownController \<times> 'loc effect list" where
  "onPlayerMovement t p loc =
     (let t1 = t\<lparr>player_objs := (player_objs t)(p := updateLocation (player_objs t p) loc)\<rparr>
      in (t1, forEach_listener t1 (PlayerMoved p)))"

text \<open>
  \<^verbatim>\<open>connect\<close>: the adapter is a new object, so its reference is fresh. The two
  \<^verbatim>\<open>socket.on\<close> calls hand the closures to the socket, which calls them later.
\<close>

definition connect ::
  "'loc CoveyTownController \<Rightarrow> string \<Rightarrow> socket \<Rightarrow> 'loc CoveyTownController \<times> 'loc effect list" where
  "connect t token sock =
     (case find (\<lambda>p. sessionToken (session_objs t p) = token) (sessions t) of
        None \<Rightarrow> (t, [SocketDisconnect sock True])
      | Some session \<Rightarrow>
          (let listener = next_ref t;
               t1 = t\<lparr>adapter_socket := (adapter_socket t)(listener \<mapsto> sock),
                      next_ref := Suc listener\<rparr>;
               t2 = addTownListener t1 listener
           in (t2, [SocketOn sock ''disconnect'' (DisconnectHandler listener session),
                    SocketOn sock ''playerMovement'' (PlayerMovementHandler session)])))"

definition onDisconnect ::
  "'loc CoveyTownController \<Rightarrow> objref \<Rightarrow> objref \<Rightarrow> 'loc CoveyTownController \<times> 'loc effect list" where
  "onDisconnect t listener session =
     (let t1 = removeTownListener t listener;
          t2 = t1\<lparr>players :=
                    filter (\<lambda>p. id' (player_objs t1 p) \<noteq> id' (player_objs t1 (player (session_objs t1 session))))
                      (players t1)\<rparr>;
          t3 = t2\<lparr>sessions :=
                    filter (\<lambda>s. sessionToken (session_objs t2 s) \<noteq> sessionToken (session_objs t2 session))
                      (sessions t2)\<rparr>
      in (t3, forEach_listener t3 (PlayerDisconnected (player (session_objs t3 session)))))"

text \<open>
  The socket calling one of the installed closures: on a \<^verbatim>\<open>disconnect\<close> event the first,
  on a \<^verbatim>\<open>playerMovement\<close> event with its payload the second. The movement closure reads
  \<^verbatim>\<open>session.player\<close> when it runs.
\<close>

fun run_handler ::
  "'loc CoveyTownController \<Rightarrow> handler \<Rightarrow> 'loc \<Rightarrow> 'loc CoveyTownController \<times> 'loc effect list" where
  "run_handler t (DisconnectHandler listener session) movementData = onDisconnect t listener session"
| "run_handler t (PlayerMovementHandler session) movementData =
     onPlayerMovement t (player (session_objs t session)) movementData"

section \<open>Sequences of operations\<close>




section \<open>Reading the effects\<close>

text \<open>The listener calls among the effects, in order: which listener, which notification.\<close>

fun listener_calls :: "'loc effect list \<Rightarrow> (objref \<times> notification) list" where
  "listener_calls [] = []"
| "listener_calls (ListenerCall l n # es) = (l, n) # listener_calls es"
| "listener_calls (e # es) = listener_calls es"

section \<open>A town to run the operations on\<close>

text \<open>
  Modelled from the spec: \<^verbatim>\<open>UserLocation\<close> (\<^verbatim>\<open>CoveyTypes.ts\<close>) is not among the sources. The
  tests build it from \<^verbatim>\<open>x\<close>, \<^verbatim>\<open>y\<close>, \<^verbatim>\<open>rotation\<close> and \<^verbatim>\<open>moving\<close>; the examples below use whole
  coordinates.
\<close>

record UserLocation =
  loc_x :: int
  loc_y :: int
  rotation :: string
  moving :: bool

definition origin :: UserLocation where
  "origin = \<lparr>loc_x = 0, loc_y = 0, rotation = ''front'', moving = False\<rparr>"

definition new_Player :: "string \<Rightarrow> string \<Rightarrow> UserLocation Player" where
  "new_Player ident name = \<lparr>id' = ident, userName = name, location = origin\<rparr>"

text \<open>
  The constructor: the town identifier and the update password are generated at random
  and are arguments here, as are the players that exist already (the request handler
  creates them) and the first free reference.
\<close>

definition new_CoveyTownController ::
  "(objref \<Rightarrow> 'loc Player) \<Rightarrow> objref \<Rightarrow> string \<Rightarrow> bool \<Rightarrow> string \<Rightarrow> string \<Rightarrow> 'loc CoveyTownController" where
  "new_CoveyTownController store free name isPublic townID password =
     \<lparr>player_objs = store, session_objs = (\<lambda>_. new_PlayerSession 0 []),
      adapter_socket = (\<lambda>_. None), next_ref = free,
      players = [], sessions = [], listeners = [],
      coveyTownID = townID, friendlyName = name,
      townUpdatePassword = password, isPubliclyListed = isPublic\<rparr>"

text \<open>Two players, references 0 and 1, and an empty private town; references from 2 are free.\<close>

definition two_players :: "objref \<Rightarrow> UserLocation Player" where
  "two_players = (\<lambda>_. new_Player [] [])(0 := new_Player ''idA'' ''A'', 1 := new_Player ''idB'' ''B'')"

definition town0 :: "UserLocation CoveyTownController" where
  "town0 = new_CoveyTownController two_players 2 ''Town'' False ''1A2B3C4D'' ''secret''"

text \<open>
  A and B (players 0 and 1) have joined, with sessions 2 and 3, and have both opened
  connections on sockets 10 and 11: A's listener is object 4, B's is object 5.
\<close>

definition after_joins :: "UserLocation CoveyTownController" where
  "after_joins =
     fst (addPlayer (fst (addPlayer town0 0 ''tokA'' (Inr ''videoA''))) 1 ''tokB'' (Inr ''videoB''))"

definition both_connected :: "UserLocation CoveyTownController" where
  "both_connected = fst (connect (fst (connect after_joins ''tokA'' 10)) ''tokB'' 11)"

definition down100 :: UserLocation where
  "down100 = \<lparr>loc_x = 100, loc_y = 100, rotation = ''down'', moving = True\<rparr>"

text \<open>
  B has joined (session 2) and is connected on socket 11 (listener 3). A's join has
  started (session 4) and its token fetch is pending; a connection presenting A's token
  on socket 10 is accepted (listener 5) and then closes.
\<close>

definition b_connected :: "UserLocation CoveyTownController" where
  "b_connected = fst (connect (fst (addPlayer town0 1 ''tokB'' (Inr ''videoB''))) ''tokB'' 11)"

definition a_pending :: "UserLocation CoveyTownController" where
  "a_pending = fst (connect (fst (addPlayer_start b_connected 0 ''tokA'')) ''tokA'' 10)"

definition a_left_while_pending :: "UserLocation CoveyTownController" where
  "a_left_while_pending = fst (run_handler a_pending (DisconnectHandler 5 4) origin)"

section \<open>Facts about the effects\<close>

lemmas scenario_defs =
  town0_def new_CoveyTownController_def two_players_def new_Player_def origin_def
  addPlayer_def addPlayer_start_def addPlayer_resume_def connect_def addTownListener_def
  removeTownListener_def onDisconnect_def onPlayerMovement_def forEach_listener_def
  call_listener_def new_PlayerSession_def updateLocation_def Let_def

lemma listener_calls_append: "listener_calls (es @ fs) = listener_calls es @ listener_calls fs"
  by (induction es rule: listener_calls.induct) simp_all

lemma listener_calls_townSocketAdapter: "listener_calls (townSocketAdapter s h n) = []"
  by (cases n) simp_all

lemma listener_calls_call_listener: "listener_calls (call_listener t n l) = [(l, n)]"
  by (simp add: call_listener_def listener_calls_townSocketAdapter split: option.split)

lemma listener_calls_concat:
  "listener_calls (concat (map (call_listener t n) ls)) = map (\<lambda>l. (l, n)) ls"
  by (induction ls) (simp_all add: listener_calls_append listener_calls_call_listener)

lemma listener_calls_forEach:
  "listener_calls (forEach_listener t n) = map (\<lambda>l. (l, n)) (listeners t)"
  by (simp add: forEach_listener_def listener_calls_concat)

lemma count_list_tagged: "count_list (map (\<lambda>l. (l, n)) ls) (k, n) = count_list ls k"
  by (induction ls) simp_all

lemma count_list_filter_neq: "count_list (filter (\<lambda>v. v \<noteq> k) ls) k = 0"
  by (induction ls) simp_all

lemma filter_tokens_find:
  "find (\<lambda>p. f p = tok) (filter (\<lambda>p. f p \<noteq> tok) xs) = None"
  by (induction xs) simp_all

lemma call_listener_moved:
  "call_listener (t\<lparr>player_objs := (player_objs t)(p := q)\<rparr>) (PlayerMoved p) =
     (\<lambda>l. ListenerCall l (PlayerMoved p) #
       (case adapter_socket t l of None \<Rightarrow> [] | Some sock \<Rightarrow> [SocketEmit sock ''playerMoved'' (Some q)]))"
  by (rule ext) (simp add: call_listener_def split: option.split)

lemma onPlayerMovement_effects:
  "snd (onPlayerMovement t p loc) =
     concat (map (\<lambda>l. ListenerCall l (PlayerMoved p) #
                    (case adapter_socket t l of
                       None \<Rightarrow> []
                     | Some sock \<Rightarrow>
                         [SocketEmit sock ''playerMoved'' (Some ((player_objs t p)\<lparr>location := loc\<rparr>))]))
               (listeners t))"
  by (simp add: onPlayerMovement_def Let_def forEach_listener_def call_listener_moved updateLocation_def)

lemma onPlayerMovement_calls:
  "listener_calls (snd (onPlayerMovement t p loc)) = map (\<lambda>l. (l, PlayerMoved p)) (listeners t)"
  by (simp add: onPlayerMovement_def Let_def listener_calls_forEach)

lemma onPlayerMovement_state:
  "location (player_objs (fst (onPlayerMovement t p loc)) p) = loc \<and>
   listeners (fst (onPlayerMovement t p loc)) = listeners t"
  by (simp add: onPlayerMovement_def Let_def updateLocation_def)

lemma onDisconnect_state:
  "fst (onDisconnect t l s) =
     t\<lparr>listeners := filter (\<lambda>v. v \<noteq> l) (listeners t),
       players := filter (\<lambda>p. id' (player_objs t p) \<noteq> id' (player_objs t (player (session_objs t s)))) (players t),
       sessions := filter (\<lambda>r. sessionToken (session_objs t r) \<noteq> sessionToken (session_objs t s)) (sessions t)\<rparr>"
  by (simp add: onDisconnect_def removeTownListener_def Let_def)

lemma onDisconnect_effects:
  "snd (onDisconnect t l s) =
     forEach_listener (fst (onDisconnect t l s)) (PlayerDisconnected (player (session_objs t s)))"
  by (simp add: onDisconnect_def removeTownListener_def Let_def)

lemma onDisconnect_calls:
  "listener_calls (snd (onDisconnect t l s)) =
     map (\<lambda>v. (v, PlayerDisconnected (player (session_objs t s)))) (filter (\<lambda>v. v \<noteq> l) (listeners t))"
  by (simp add: onDisconnect_effects listener_calls_forEach onDisconnect_state)

lemma onDisconnect_again_state:
  "fst (onDisconnect (fst (onDisconnect t l s)) l s) = fst (onDisconnect t l s)"
  by (simp add: onDisconnect_state)

lemma onDisconnect_heap:
  "session_objs (fst (onDisconnect t l s)) = session_objs t"
  by (simp add: onDisconnect_state)

lemma call_listener_disconnected:
  "call_listener t (PlayerDisconnected p) =
     (\<lambda>v. ListenerCall v (PlayerDisconnected p) #
       (case adapter_socket t v of
          None \<Rightarrow> []
        | Some sock \<Rightarrow> [SocketEmit sock ''playerDisconnect'' (Some (player_objs t p))]))"
  by (rule ext) (simp add: call_listener_def split: option.split)

lemma onDisconnect_effects_exact:
  "snd (onDisconnect t l s) =
     concat (map (\<lambda>v. ListenerCall v (PlayerDisconnected (player (session_objs t s))) #
                    (case adapter_socket t v of
                       None \<Rightarrow> []
                     | Some sock \<Rightarrow>
                         [SocketEmit sock ''playerDisconnect''
                            (Some (player_objs t (player (session_objs t s))))]))
               (filter (\<lambda>v. v \<noteq> l) (listeners t)))"
proof -
  have same: "call_listener (fst (onDisconnect t l s)) (PlayerDisconnected (player (session_objs t s))) =
      call_listener t (PlayerDisconnected (player (session_objs t s)))"
    by (rule ext) (simp add: call_listener_def onDisconnect_state split: option.split)
  have "snd (onDisconnect t l s) =
      concat (map (call_listener t (PlayerDisconnected (player (session_objs t s))))
                (filter (\<lambda>v. v \<noteq> l) (listeners t)))"
    by (simp add: onDisconnect_effects forEach_listener_def same) (simp add: onDisconnect_state)
  then show ?thesis
    by (simp only: call_listener_disconnected)
qed

section \<open>A failed token fetch\<close>

text \<open>
  C1, as stated: when the token fetch of \<^verbatim>\<open>addPlayer\<close> fails, the join is aborted before any
  player-joined notification and the town's players and sessions are as before the call.
  The second half fails: on the empty town, a join of player 0 whose fetch fails returns
  the error and leaves player 0 and session 2 in the two arrays.
\<close>

theorem addPlayer_failed_fetch_keeps_player:
  "snd (snd (addPlayer town0 0 ''tokA'' (Inl VideoTokenFault))) = Inl VideoTokenFault \<and>
   players town0 = [] \<and> sessions town0 = [] \<and>
   players (fst (addPlayer town0 0 ''tokA'' (Inl VideoTokenFault))) = [0] \<and>
   sessions (fst (addPlayer town0 0 ''tokA'' (Inl VideoTokenFault))) = [2]"
  by (simp add: scenario_defs)

text \<open>
  C1, amended: when the token fetch fails, \<^verbatim>\<open>addPlayer\<close> fails with the fetch's error and no
  listener is called; the player and the session that were pushed before the fetch stay
  in the players and sessions arrays. The last conjunct is the same for a call that was
  suspended while other handlers ran: resuming with a failure changes nothing and calls
  no one.
\<close>

theorem addPlayer_failed_fetch:
  "snd (snd (addPlayer t p tok (Inl e))) = Inl e \<and>
   listener_calls (fst (snd (addPlayer t p tok (Inl e)))) = [] \<and>
   players (fst (addPlayer t p tok (Inl e))) = players t @ [p] \<and>
   sessions (fst (addPlayer t p tok (Inl e))) = sessions t @ [next_ref t] \<and>
   addPlayer_resume t' s p (Inl e) = (t', [], Inl e)"
  by (simp add: addPlayer_def addPlayer_start_def addPlayer_resume_def Let_def)

section \<open>Movement\<close>

text \<open>
  C2, as stated: after a movement update from occupant A, every other listener is called
  once with player-moved and A's own listener is not. The last part fails: with A and B
  connected, the connection of A on socket 10 got listener 4 and a movement handler for
  session 2, whose player is A; a movement on that handler calls listener 4 as well, and
  socket 10 is sent A's own move.
\<close>

theorem movement_echoed_to_sender:
  "snd (connect after_joins ''tokA'' 10) =
     [SocketOn 10 ''disconnect'' (DisconnectHandler 4 2),
      SocketOn 10 ''playerMovement'' (PlayerMovementHandler 2)] \<and>
   player (session_objs both_connected 2) = 0 \<and>
   listeners both_connected = [4, 5] \<and>
   snd (run_handler both_connected (PlayerMovementHandler 2) down100) =
     [ListenerCall 4 (PlayerMoved 0),
      SocketEmit 10 ''playerMoved'' (Some \<lparr>id' = ''idA'', userName = ''A'', location = down100\<rparr>),
      ListenerCall 5 (PlayerMoved 0),
      SocketEmit 11 ''playerMoved'' (Some \<lparr>id' = ''idA'', userName = ''A'', location = down100\<rparr>)]"
  by (simp add: both_connected_def after_joins_def scenario_defs)

text \<open>
  C2, amended: when a connected occupant A sends a movement update, the location of A's
  player is overwritten with the new location and every currently registered listener of
  the town, A's own included, is called with player-moved for A's player, once for each
  of its registrations; a socket adapter sends its socket the player with the new
  location.
\<close>

theorem movement_reaches_every_listener:
  "location (player_objs (fst (run_handler t (PlayerMovementHandler s) loc)) (player (session_objs t s))) = loc \<and>
   listeners (fst (run_handler t (PlayerMovementHandler s) loc)) = listeners t \<and>
   listener_calls (snd (run_handler t (PlayerMovementHandler s) loc)) =
     map (\<lambda>l. (l, PlayerMoved (player (session_objs t s)))) (listeners t) \<and>
   count_list (listener_calls (snd (run_handler t (PlayerMovementHandler s) loc)))
       (k, PlayerMoved (player (session_objs t s))) = count_list (listeners t) k \<and>
   snd (run_handler t (PlayerMovementHandler s) loc) =
     concat (map (\<lambda>l. ListenerCall l (PlayerMoved (player (session_objs t s))) #
                    (case adapter_socket t l of
                       None \<Rightarrow> []
                     | Some sock \<Rightarrow>
                         [SocketEmit sock ''playerMoved''
                            (Some ((player_objs t (player (session_objs t s)))\<lparr>location := loc\<rparr>))]))
               (listeners t))"
proof -
  have handler: "run_handler t (PlayerMovementHandler s) loc = onPlayerMovement t (player (session_objs t s)) loc"
    by simp
  show ?thesis
    unfolding handler
    by (simp only: onPlayerMovement_state onPlayerMovement_calls count_list_tagged
        onPlayerMovement_effects [symmetric] simp_thms)
qed

section \<open>A session destroyed while its join is pending\<close>

text \<open>
  C3, as stated: if the session is destroyed by a disconnect while its own token fetch is
  pending, no player-joined notification is broadcast when the fetch resolves. This
  fails: B is connected (listener 3); A's join has started (session 4); a connection with
  A's token is accepted and closes, which removes session 4; when the fetch resolves,
  listener 3 is called with player-joined for A although only session 2 is left.
\<close>

theorem join_broadcast_after_session_destroyed:
  "snd (connect (fst (addPlayer_start b_connected 0 ''tokA'')) ''tokA'' 10) =
     [SocketOn 10 ''disconnect'' (DisconnectHandler 5 4),
      SocketOn 10 ''playerMovement'' (PlayerMovementHandler 4)] \<and>
   sessions a_pending = [2, 4] \<and>
   sessions a_left_while_pending = [2] \<and>
   players a_left_while_pending = [1] \<and>
   listener_calls (fst (snd (addPlayer_resume a_left_while_pending 4 0 (Inr ''videoA'')))) =
     [(3, PlayerJoined 0)]"
  by (simp add: a_left_while_pending_def a_pending_def b_connected_def scenario_defs)

text \<open>
  C3, amended: when the token fetch resolves, the completion path of \<^verbatim>\<open>addPlayer\<close> checks
  nothing: it calls every listener registered at that moment with player-joined for the
  player, whether or not the session is still in the sessions array, and it leaves the
  players and sessions arrays as it finds them.
\<close>

theorem addPlayer_resume_no_liveness_check:
  "listener_calls (fst (snd (addPlayer_resume t s p (Inr v)))) = map (\<lambda>l. (l, PlayerJoined p)) (listeners t) \<and>
   sessions (fst (addPlayer_resume t s p (Inr v))) = sessions t \<and>
   players (fst (addPlayer_resume t s p (Inr v))) = players t \<and>
   snd (snd (addPlayer_resume t s p (Inr v))) = Inr s"
  by (simp add: addPlayer_resume_def Let_def listener_calls_forEach)

section \<open>The two phases of a join\<close>

text \<open>
  C4: \<^verbatim>\<open>addPlayer\<close> is two-phase. Before the token fetch resolves, the new player and the new
  session (with no video token yet) are at the end of the players and sessions arrays,
  the token has been requested and no listener has been called. When the fetch resolves,
  on whatever state \<open>t'\<close> the town is in by then, the session gets its video token and
  exactly the listeners registered in \<open>t'\<close> are called with player-joined. An uninterrupted
  call is the first phase followed by the second.
\<close>

theorem addPlayer_two_phase:
  "players (fst (addPlayer_start t p tok)) = players t @ [p] \<and>
   sessions (fst (addPlayer_start t p tok)) = sessions t @ [snd (snd (addPlayer_start t p tok))] \<and>
   session_objs (fst (addPlayer_start t p tok)) (snd (snd (addPlayer_start t p tok))) =
     \<lparr>player = p, sessionToken = tok, videoToken = None\<rparr> \<and>
   fst (snd (addPlayer_start t p tok)) = [GetTokenForTown (coveyTownID t) (id' (player_objs t p))] \<and>
   listener_calls (fst (snd (addPlayer_start t p tok))) = [] \<and>
   videoToken (session_objs (fst (addPlayer_resume t' s p (Inr v))) s) = Some v \<and>
   listener_calls (fst (snd (addPlayer_resume t' s p (Inr v)))) =
     map (\<lambda>l. (l, PlayerJoined p)) (listeners t') \<and>
   fst (snd (addPlayer t p tok (Inr v))) =
     GetTokenForTown (coveyTownID t) (id' (player_objs t p)) #
       fst (snd (addPlayer_resume (fst (addPlayer_start t p tok)) (next_ref t) p (Inr v)))"
  by (simp add: addPlayer_def addPlayer_start_def addPlayer_resume_def Let_def listener_calls_forEach
      new_PlayerSession_def)

text \<open>
  A run of C4: A's join starts while B is connected; a listener 9 registers while the
  fetch is pending; on completion both listener 3 and listener 9 are called.
\<close>

theorem addPlayer_two_phase_witness:
  "players (fst (addPlayer_start b_connected 0 ''tokA'')) = [1, 0] \<and>
   sessions (fst (addPlayer_start b_connected 0 ''tokA'')) = [2, 4] \<and>
   listener_calls (fst (snd (addPlayer_start b_connected 0 ''tokA''))) = [] \<and>
   listener_calls (fst (snd (addPlayer_resume
       (addTownListener (fst (addPlayer_start b_connected 0 ''tokA'')) 9) 4 0 (Inr ''videoA'')))) =
     [(3, PlayerJoined 0), (9, PlayerJoined 0)]"
  using addPlayer_two_phase [of b_connected 0 "''tokA''"
      "addTownListener (fst (addPlayer_start b_connected 0 ''tokA'')) 9" 4 "''videoA''"]
  by (simp add: b_connected_def scenario_defs)

section \<open>update\<close>

text \<open>
  C5: \<^verbatim>\<open>update\<close> returns \<^verbatim>\<open>false\<close> and leaves the town as it was (friendly name and
  visibility included) when the password does not match or the supplied friendly name is
  the empty string, whatever visibility was supplied with it; otherwise it returns
  \<^verbatim>\<open>true\<close> and the town has the supplied friendly name, if one was given, and the supplied
  visibility, if one was given. The password comparison \<open>pm\<close> is arbitrary.
\<close>

theorem update_contract:
  "update pm t pw newName mp =
     (if pm pw (townUpdatePassword t) \<and> newName \<noteq> Some []
      then (t\<lparr>friendlyName := (case newName of None \<Rightarrow> friendlyName t | Some n \<Rightarrow> n),
              isPubliclyListed := (case mp of None \<Rightarrow> isPubliclyListed t | Some b \<Rightarrow> b)\<rparr>, True)
      else (t, False))"
  by (auto simp: update_def split: option.splits)

text \<open>
  Runs of C5 on the private town named Town, with string equality as the comparison: a
  wrong password, an empty name with the right password, and an accepted update.
\<close>

theorem update_contract_witness:
  "update (=) town0 ''wrong'' (Some ''Renamed'') (Some True) = (town0, False) \<and>
   update (=) town0 ''secret'' (Some []) (Some True) = (town0, False) \<and>
   update (=) town0 ''secret'' (Some ''Renamed'') (Some True) =
     (town0\<lparr>friendlyName := ''Renamed'', isPubliclyListed := True\<rparr>, True) \<and>
   update (=) town0 ''secret'' None (Some True) = (town0\<lparr>isPubliclyListed := True\<rparr>, True) \<and>
   friendlyName town0 = ''Town'' \<and> isPubliclyListed town0 = False"
  using update_contract [of "(=)" town0 "''wrong''" "Some ''Renamed''" "Some True"]
    update_contract [of "(=)" town0 "''secret''" "Some []" "Some True"]
    update_contract [of "(=)" town0 "''secret''" "Some ''Renamed''" "Some True"]
    update_contract [of "(=)" town0 "''secret''" None "Some True"]
  by (simp add: town0_def new_CoveyTownController_def)

section \<open>Disconnect\<close>

text \<open>
  C6, as stated: \<^verbatim>\<open>onDisconnect(listener, session)\<close> removes the listener, the session's
  player and the session, and every remaining listener receives exactly one
  player-disconnected notification. The count fails for a listener that is registered
  more than once: with A and B connected and listener 7 registered twice, the teardown
  of A's connection calls B's listener 5 once and listener 7 twice.
\<close>

theorem onDisconnect_notifies_per_registration:
  "listeners (addTownListener (addTownListener both_connected 7) 7) = [4, 5, 7, 7] \<and>
   listeners (fst (onDisconnect (addTownListener (addTownListener both_connected 7) 7) 4 2)) = [5, 7, 7] \<and>
   listener_calls (snd (onDisconnect (addTownListener (addTownListener both_connected 7) 7) 4 2)) =
     [(5, PlayerDisconnected 0), (7, PlayerDisconnected 0), (7, PlayerDisconnected 0)] \<and>
   count_list (listener_calls (snd (onDisconnect (addTownListener (addTownListener both_connected 7) 7) 4 2)))
     (7, PlayerDisconnected 0) = 2"
  by (simp add: both_connected_def after_joins_def scenario_defs)

text \<open>
  C6, amended: \<^verbatim>\<open>onDisconnect(listener, session)\<close> changes the three arrays and nothing
  else. It removes every registration of the listener from the listeners array, every
  player with the identifier of the session's player (the session's player among them)
  from the players array and every session with the session's token (the session among
  them) from the sessions array; all other entries stay, in their order. It then calls
  the remaining listeners, in order, with player-disconnected for the removed player,
  once for each remaining registration: a listener \<open>k\<close> is called as many times as it is
  still registered, so exactly once when it is registered once, and the disconnecting
  listener is called with nothing at all. A socket adapter sends its socket the removed
  player as it was.
\<close>

theorem onDisconnect_removes_and_notifies:
  "fst (onDisconnect t l s) =
     t\<lparr>listeners := filter (\<lambda>v. v \<noteq> l) (listeners t),
       players := filter (\<lambda>p. id' (player_objs t p) \<noteq> id' (player_objs t (player (session_objs t s)))) (players t),
       sessions := filter (\<lambda>r. sessionToken (session_objs t r) \<noteq> sessionToken (session_objs t s)) (sessions t)\<rparr> \<and>
   l \<notin> set (listeners (fst (onDisconnect t l s))) \<and>
   player (session_objs t s) \<notin> set (players (fst (onDisconnect t l s))) \<and>
   s \<notin> set (sessions (fst (onDisconnect t l s))) \<and>
   snd (onDisconnect t l s) =
     concat (map (\<lambda>v. ListenerCall v (PlayerDisconnected (player (session_objs t s))) #
                    (case adapter_socket t v of
                       None \<Rightarrow> []
                     | Some sock \<Rightarrow>
                         [SocketEmit sock ''playerDisconnect''
                            (Some (player_objs t (player (session_objs t s))))]))
               (filter (\<lambda>v. v \<noteq> l) (listeners t))) \<and>
   listener_calls (snd (onDisconnect t l s)) =
     map (\<lambda>v. (v, PlayerDisconnected (player (session_objs t s)))) (filter (\<lambda>v. v \<noteq> l) (listeners t)) \<and>
   count_list (listener_calls (snd (onDisconnect t l s))) (k, PlayerDisconnected (player (session_objs t s))) =
     count_list (filter (\<lambda>v. v \<noteq> l) (listeners t)) k \<and>
   count_list (listener_calls (snd (onDisconnect t l s))) (l, n) = 0"
proof -
  have a: "l \<notin> set (listeners (fst (onDisconnect t l s)))"
    by (simp add: onDisconnect_state)
  have b: "player (session_objs t s) \<notin> set (players (fst (onDisconnect t l s)))"
    by (simp add: onDisconnect_state)
  have c: "s \<notin> set (sessions (fst (onDisconnect t l s)))"
    by (simp add: onDisconnect_state)
  have d: "count_list (listener_calls (snd (onDisconnect t l s))) (l, n) = 0"
    by (auto simp: onDisconnect_calls count_list_0_iff)
  have e: "snd (onDisconnect t l s) =
     concat (map (\<lambda>v. ListenerCall v (PlayerDisconnected (player (session_objs t s))) #
                    (case adapter_socket t v of
                       None \<Rightarrow> []
                     | Some sock \<Rightarrow>
                         [SocketEmit sock ''playerDisconnect''
                            (Some (player_objs t (player (session_objs t s))))]))
               (filter (\<lambda>v. v \<noteq> l) (listeners t)))"
    by (rule onDisconnect_effects_exact)
  have f: "count_list (listener_calls (snd (onDisconnect t l s)))
             (k, PlayerDisconnected (player (session_objs t s))) =
           count_list (filter (\<lambda>v. v \<noteq> l) (listeners t)) k"
    by (simp only: onDisconnect_calls count_list_tagged)
  show ?thesis
    using a b c d e f onDisconnect_state [of t l s] onDisconnect_calls [of t l s]
    by blast
qed

text \<open>
  A run of C6, amended: with A and B connected, A's connection closes; B's player,
  session and listener stay and listener 5 is called once.
\<close>

theorem onDisconnect_removes_and_notifies_witness:
  "listeners both_connected = [4, 5] \<and> players both_connected = [0, 1] \<and>
   sessions both_connected = [2, 3] \<and>
   listeners (fst (onDisconnect both_connected 4 2)) = [5] \<and>
   players (fst (onDisconnect both_connected 4 2)) = [1] \<and>
   sessions (fst (onDisconnect both_connected 4 2)) = [3] \<and>
   listener_calls (snd (onDisconnect both_connected 4 2)) = [(5, PlayerDisconnected 0)] \<and>
   snd (onDisconnect both_connected 4 2) =
     [ListenerCall 5 (PlayerDisconnected 0),
      SocketEmit 11 ''playerDisconnect'' (Some \<lparr>id' = ''idA'', userName = ''A'', location = origin\<rparr>)]"
  using onDisconnect_removes_and_notifies [of both_connected 4 2]
  by (simp add: both_connected_def after_joins_def scenario_defs)

text \<open>
  C8, as stated: a second \<^verbatim>\<open>onDisconnect\<close> for the same listener and session has no further
  effect, in particular no second player-disconnected broadcast. The broadcast part
  fails: with A and B connected, the second teardown of A's connection calls B's
  listener 5 again.
\<close>

theorem second_onDisconnect_broadcasts_again:
  "listener_calls (snd (onDisconnect both_connected 4 2)) = [(5, PlayerDisconnected 0)] \<and>
   listener_calls (snd (onDisconnect (fst (onDisconnect both_connected 4 2)) 4 2)) =
     [(5, PlayerDisconnected 0)]"
  by (simp add: both_connected_def after_joins_def scenario_defs)

text \<open>
  C8, amended: a second \<^verbatim>\<open>onDisconnect\<close> for the same listener and session leaves the town
  as the first one left it, so the occupancy is not decremented again, but it repeats
  the broadcast: every remaining listener is called with player-disconnected a second
  time, with the same effects as the first time.
\<close>

theorem onDisconnect_twice:
  "fst (onDisconnect (fst (onDisconnect t l s)) l s) = fst (onDisconnect t l s) \<and>
   occupancy (fst (onDisconnect (fst (onDisconnect t l s)) l s)) = occupancy (fst (onDisconnect t l s)) \<and>
   snd (onDisconnect (fst (onDisconnect t l s)) l s) = snd (onDisconnect t l s) \<and>
   listener_calls (snd (onDisconnect (fst (onDisconnect t l s)) l s)) =
     map (\<lambda>v. (v, PlayerDisconnected (player (session_objs t s)))) (filter (\<lambda>v. v \<noteq> l) (listeners t))"
proof -
  have st: "fst (onDisconnect (fst (onDisconnect t l s)) l s) = fst (onDisconnect t l s)"
    by (rule onDisconnect_again_state)
  have eff: "snd (onDisconnect (fst (onDisconnect t l s)) l s) = snd (onDisconnect t l s)"
    by (simp add: onDisconnect_effects [of "fst (onDisconnect t l s)"] onDisconnect_effects [of t]
        onDisconnect_again_state onDisconnect_heap)
  show ?thesis
    by (simp only: st eff onDisconnect_calls simp_thms)
qed

section \<open>connect\<close>

text \<open>
  C7: when the token is the token of no session in the sessions array, \<^verbatim>\<open>connect\<close>
  disconnects the socket and does nothing else: the town, its listeners included, is
  unchanged and no listener is called. The token of a session that a disconnect has
  destroyed is such a token in the state the disconnect leaves, so presenting it again
  registers no listener.
\<close>

theorem connect_rejects_unknown_token:
  "(token \<notin> set (map (\<lambda>s. sessionToken (session_objs t s)) (sessions t)) \<longrightarrow>
      connect t token sock = (t, [SocketDisconnect sock True])) \<and>
   connect (fst (onDisconnect t l s)) (sessionToken (session_objs t s)) sock =
     (fst (onDisconnect t l s), [SocketDisconnect sock True])"
proof
  show "token \<notin> set (map (\<lambda>s. sessionToken (session_objs t s)) (sessions t)) \<longrightarrow>
      connect t token sock = (t, [SocketDisconnect sock True])"
  proof
    assume a: "token \<notin> set (map (\<lambda>s. sessionToken (session_objs t s)) (sessions t))"
    have "find (\<lambda>p. sessionToken (session_objs t p) = token) (sessions t) = None"
      using a by (auto simp: find_None_iff)
    then show "connect t token sock = (t, [SocketDisconnect sock True])"
      by (simp add: connect_def)
  qed
next
  have "find (\<lambda>p. sessionToken (session_objs t p) = sessionToken (session_objs t s))
          (filter (\<lambda>p. sessionToken (session_objs t p) \<noteq> sessionToken (session_objs t s)) (sessions t)) = None"
    by (rule filter_tokens_find)
  then show "connect (fst (onDisconnect t l s)) (sessionToken (session_objs t s)) sock =
     (fst (onDisconnect t l s), [SocketDisconnect sock True])"
    by (simp add: connect_def onDisconnect_state)
qed

text \<open>
  Runs of C7: an unknown token on socket 12, and A's token presented again on socket 12
  after A's connection has closed.
\<close>

theorem connect_rejects_unknown_token_witness:
  "''stale'' \<notin> set (map (\<lambda>s. sessionToken (session_objs both_connected s)) (sessions both_connected)) \<and>
   connect both_connected ''stale'' 12 = (both_connected, [SocketDisconnect 12 True]) \<and>
   sessionToken (session_objs both_connected 2) = ''tokA'' \<and>
   snd (connect (fst (onDisconnect both_connected 4 2)) ''tokA'' 12) = [SocketDisconnect 12 True] \<and>
   listeners (fst (connect (fst (onDisconnect both_connected 4 2)) ''tokA'' 12)) = [5]"
proof -
  have h: "''stale'' \<notin> set (map (\<lambda>s. sessionToken (session_objs both_connected s)) (sessions both_connected))"
    by (simp add: both_connected_def after_joins_def scenario_defs)
  have k: "sessionToken (session_objs both_connected 2) = ''tokA''"
    by (simp add: both_connected_def after_joins_def scenario_defs)
  have l: "listeners (fst (onDisconnect both_connected 4 2)) = [5]"
    by (simp add: both_connected_def after_joins_def scenario_defs)
  from connect_rejects_unknown_token [of "''stale''" both_connected 12 4 2] h k l
  show ?thesis by simp
qed

section \<open>Occupancy and registrations\<close>


text \<open>
  C10: \<^verbatim>\<open>addTownListener\<close> checks nothing. Registering a listener twice appends it twice: it
  counts two more toward the occupancy and every broadcast calls it two more times than
  before; one \<^verbatim>\<open>removeTownListener\<close> then removes every registration of it.
\<close>

theorem addTownListener_twice:
  "listeners (addTownListener (addTownListener t l) l) = listeners t @ [l, l] \<and>
   count_list (listeners (addTownListener (addTownListener t l) l)) l = count_list (listeners t) l + 2 \<and>
   occupancy (addTownListener (addTownListener t l) l) = occupancy t + 2 \<and>
   count_list (listener_calls (forEach_listener (addTownListener (addTownListener t l) l) n)) (l, n) =
     count_list (listeners t) l + 2 \<and>
   count_list (listeners (removeTownListener (addTownListener (addTownListener t l) l) l)) l = 0 \<and>
   l \<notin> set (listeners (removeTownListener (addTownListener (addTownListener t l) l) l))"
  by (simp add: addTownListener_def removeTownListener_def occupancy_def listener_calls_forEach
      count_list_tagged count_list_filter_neq)

text \<open>A run of C10 on the empty town with listener 7, for the town-destroyed broadcast.\<close>

theorem addTownListener_twice_witness:
  "listeners (addTownListener (addTownListener town0 7) 7) = [7, 7] \<and>
   occupancy (addTownListener (addTownListener town0 7) 7) = 2 \<and>
   listener_calls (snd (disconnectAllPlayers (addTownListener (addTownListener town0 7) 7))) =
     [(7, TownDestroyed), (7, TownDestroyed)] \<and>
   listeners (removeTownListener (addTownListener (addTownListener town0 7) 7) 7) = []"
  using addTownListener_twice [of town0 7 TownDestroyed]
  by (simp add: disconnectAllPlayers_def occupancy_def scenario_defs)

end
